theory Spec2Isabelle
  imports Main
begin

section \<open>Data model\<close>

text \<open>
  The audio payload of a recording. The browser's \<open>Blob\<close> is opaque to the orchestrator,
  which only hands it to an adapter and reads its \<open>size\<close>; it is modelled by its bytes.
\<close>

datatype Blob = Blob (bytes: "char list")

definition blob_size :: "Blob \<Rightarrow> nat" where
  "blob_size b = length (bytes b)"

datatype TranscriptionStatus = UNTRANSCRIBED | TRANSCRIBING | DONE | FAILED

text \<open>
  Modelled from the spec: the \<open>Recording\<close> type is declared in \<open>$lib/services/db\<close>, which is
  not part of the sources at hand. The spec gives it a stable identifier, an audio payload
  that may be absent, a transcription status, and a transcribed text that is "present" or
  not; an absent payload and an absent text are \<open>None\<close>.
\<close>

record Recording =
  recording_id :: string
  blob :: "Blob option"
  transcribedText :: "string option"
  transcriptionStatus :: TranscriptionStatus

record WhisperingError =
  title :: string
  description :: string

text \<open>
  \<open>Result<T, WhisperingError>\<close>: \<open>Err\<close> is \<open>Inl\<close>, \<open>Ok\<close> is \<open>Inr\<close>. The source tests
  \<open>result.error\<close> for truthiness; an error is an object, so the test is true exactly on \<open>Err\<close>.
\<close>

type_synonym 'a Result = "WhisperingError + 'a"

abbreviation Ok :: "'a \<Rightarrow> 'a Result" where
  "Ok \<equiv> Inr"

abbreviation Err :: "WhisperingError \<Rightarrow> 'a Result" where
  "Err \<equiv> Inl"

definition WhisperingErr :: "string \<Rightarrow> string \<Rightarrow> 'a Result" where
  "WhisperingErr t d = Err \<lparr>title = t, description = d\<rparr>"

text \<open>The warning sign that opens every title, U+26A0 U+FE0F, as its UTF-8 bytes.\<close>

definition warning_sign :: string where
  "warning_sign = [CHR 0xE2, CHR 0x9A, CHR 0xA0, CHR 0xEF, CHR 0xB8, CHR 0x8F]"

text \<open>The two errors the orchestrator itself raises, named as the spec names them.\<close>

definition MissingBlob :: WhisperingError where
  "MissingBlob =
     \<lparr>title = warning_sign @ '' Recording blob not found'',
      description = ''Your recording doesn'' @ [CHR 0x27] @ ''t have a blob to transcribe.''\<rparr>"

definition NoProviderSelected :: WhisperingError where
  "NoProviderSelected =
     \<lparr>title = warning_sign @ '' No transcription service selected'',
      description = ''Please select a transcription service in settings.''\<rparr>"

subsection \<open>Settings\<close>

text \<open>
  The keys of \<open>settings.value\<close> that \<open>transcribeBlob\<close> reads, with the dots of the key
  written as underscores. All of them are read before the adapter call is awaited, so one
  call sees one snapshot.
\<close>

record Settings =
  transcription_selectedTranscriptionService :: string
  transcription_outputLanguage :: string
  transcription_prompt :: string
  transcription_temperature :: string
  apiEndpoints_openai :: string
  apiEndpoints_groq :: string
  apiKeys_openai :: string
  apiKeys_groq :: string
  apiKeys_elevenlabs :: string
  apiKeys_deepgram :: string
  transcription_openai_model :: string
  transcription_groq_model :: string
  transcription_elevenlabs_model :: string
  transcription_deepgram_model :: string
  transcription_speaches_modelId :: string
  transcription_speaches_baseUrl :: string
  transcription_whispercpp_modelPath :: string
  transcription_whispercpp_useGpu :: bool

subsection \<open>Collaborators\<close>

text \<open>The members of \<open>services.transcriptions\<close>, one adapter per backend.\<close>

datatype TranscriptionService =
  NativeOpenai | Openai | Groq | Speaches | Elevenlabs | Deepgram | Whispercpp

text \<open>The options object handed to an adapter: its keys in the order written.\<close>

datatype OptionValue = Str string | Flag bool

type_synonym Options = "(string \<times> OptionValue) list"

datatype StorageError = StorageError string

datatype AnalyticsError = AnalyticsError string

datatype AnalyticsEvent =
    transcription_requested (provider: string)
  | transcription_failed (provider: string) (error_title: string) (error_description: string)
  | transcription_completed (provider: string) (duration: int)

datatype Notification =
  Warning (warning_title: string) (warning_description: string) (more_details: StorageError)

text \<open>
  What is printed to the console: the provider, the size of the audio (in bytes; the source
  prints it in megabytes with two decimals) and \<open>hasBlob\<close> at the start; the provider, the
  duration and the error, or the length of the text, at the end.
\<close>

datatype ConsoleMessage =
    StartingTranscription string nat bool
  | TranscriptionFailed string int WhisperingError
  | TranscriptionCompleted string int nat

text \<open>
  Everything the orchestrator does to the outside, in the order it does it. A call that
  answers is recorded with its answer.
\<close>

datatype Effect =
    UpdateRecording Recording "StorageError option"
  | NotifyWarning Notification
  | DateNow int
  | ConsoleLog ConsoleMessage
  | ConsoleError ConsoleMessage
  | LogEvent AnalyticsEvent "AnalyticsError option"
  | Transcribe TranscriptionService Blob Options "string Result"

text \<open>
  The outside world of one run. The status store answers an update with an error or with
  none; an adapter is a function of the audio and its options (spec, section 6: "pure
  function of its inputs, no persisted state") that returns a result and does not throw;
  the analytics sink may fail to record an event; the clock's reading may depend on
  everything done so far.
\<close>

record Env =
  settings :: Settings
  updateRecording :: "Recording \<Rightarrow> StorageError option"
  transcribe :: "TranscriptionService \<Rightarrow> Blob \<Rightarrow> Options \<Rightarrow> string Result"
  logEvent :: "AnalyticsEvent \<Rightarrow> AnalyticsError option"
  dateNow :: "Effect list \<Rightarrow> int"

section \<open>Calls to the collaborators\<close>

definition updateRecording_execute ::
  "Env \<Rightarrow> Recording \<Rightarrow> Effect list \<Rightarrow> StorageError option \<times> Effect list" where
  "updateRecording_execute env r tr =
     (updateRecording env r, tr @ [UpdateRecording r (updateRecording env r)])"

text \<open>\<open>notify.warning.execute\<close> is not awaited and its outcome is never read.\<close>

definition notify_warning_execute :: "Notification \<Rightarrow> Effect list \<Rightarrow> Effect list" where
  "notify_warning_execute w tr = tr @ [NotifyWarning w]"

text \<open>
  \<open>rpc.analytics.logEvent.execute\<close> is not awaited either: whether the emission fails is
  recorded, and nothing is returned to the caller.
\<close>

definition logEvent_execute :: "Env \<Rightarrow> AnalyticsEvent \<Rightarrow> Effect list \<Rightarrow> Effect list" where
  "logEvent_execute env ev tr = tr @ [LogEvent ev (logEvent env ev)]"

definition Date_now :: "Env \<Rightarrow> Effect list \<Rightarrow> int \<times> Effect list" where
  "Date_now env tr = (dateNow env tr, tr @ [DateNow (dateNow env tr)])"

definition console_log :: "ConsoleMessage \<Rightarrow> Effect list \<Rightarrow> Effect list" where
  "console_log m tr = tr @ [ConsoleLog m]"

definition console_error :: "ConsoleMessage \<Rightarrow> Effect list \<Rightarrow> Effect list" where
  "console_error m tr = tr @ [ConsoleError m]"

definition transcribe_call ::
  "Env \<Rightarrow> TranscriptionService \<Rightarrow> Blob \<Rightarrow> Options \<Rightarrow> Effect list \<Rightarrow> string Result \<times> Effect list" where
  "transcribe_call env svc b opts tr =
     (transcribe env svc b opts, tr @ [Transcribe svc b opts (transcribe env svc b opts)])"

section \<open>transcribeBlob\<close>

text \<open>The three options every adapter receives.\<close>

definition sharedOptions :: "Settings \<Rightarrow> Options" where
  "sharedOptions s =
     [(''outputLanguage'', Str (transcription_outputLanguage s)),
      (''prompt'', Str (transcription_prompt s)),
      (''temperature'', Str (transcription_temperature s))]"

text \<open>
  The \<open>switch (selectedService)\<close> of \<open>transcribeBlob\<close>, case by case; a string setting is
  truthy when it is not empty.
\<close>

definition selectedServiceSwitch ::
  "Env \<Rightarrow> string \<Rightarrow> Blob \<Rightarrow> Effect list \<Rightarrow> string Result \<times> Effect list" where
  "selectedServiceSwitch env selectedService b tr =
     (let s = settings env in
      if selectedService = ''OpenAI'' then
        (if apiEndpoints_openai s \<noteq> [] then
           transcribe_call env NativeOpenai b
             (sharedOptions s @
              [(''apiKey'', Str (apiKeys_openai s)),
               (''modelName'', Str (transcription_openai_model s)),
               (''baseURL'', Str (apiEndpoints_openai s))]) tr
         else
           transcribe_call env Openai b
             (sharedOptions s @
              [(''apiKey'', Str (apiKeys_openai s)),
               (''modelName'', Str (transcription_openai_model s))]) tr)
      else if selectedService = ''Groq'' then
        transcribe_call env Groq b
          (sharedOptions s @
           [(''apiKey'', Str (apiKeys_groq s)),
            (''modelName'', Str (transcription_groq_model s))] @
           (if apiEndpoints_groq s \<noteq> [] then [(''baseURL'', Str (apiEndpoints_groq s))] else [])) tr
      else if selectedService = ''speaches'' then
        transcribe_call env Speaches b
          (sharedOptions s @
           [(''modelId'', Str (transcription_speaches_modelId s)),
            (''baseUrl'', Str (transcription_speaches_baseUrl s))]) tr
      else if selectedService = ''ElevenLabs'' then
        transcribe_call env Elevenlabs b
          (sharedOptions s @
           [(''apiKey'', Str (apiKeys_elevenlabs s)),
            (''modelName'', Str (transcription_elevenlabs_model s))]) tr
      else if selectedService = ''Deepgram'' then
        transcribe_call env Deepgram b
          (sharedOptions s @
           [(''apiKey'', Str (apiKeys_deepgram s)),
            (''modelName'', Str (transcription_deepgram_model s))]) tr
      else if selectedService = ''whispercpp'' then
        transcribe_call env Whispercpp b
          (sharedOptions s @
           [(''modelPath'', Str (transcription_whispercpp_modelPath s)),
            (''useGpu'', Flag (transcription_whispercpp_useGpu s))]) tr
      else
        (WhisperingErr (warning_sign @ '' No transcription service selected'')
           ''Please select a transcription service in settings.'', tr))"

definition transcribeBlob :: "Env \<Rightarrow> Blob \<Rightarrow> Effect list \<Rightarrow> string Result \<times> Effect list" where
  "transcribeBlob env b tr =
     (let selectedService = transcription_selectedTranscriptionService (settings env);
          (startTime, tr1) = Date_now env tr;
          tr2 = console_log (StartingTranscription selectedService (blob_size b) True) tr1;
          tr3 = logEvent_execute env (transcription_requested selectedService) tr2;
          (transcriptionResult, tr4) = selectedServiceSwitch env selectedService b tr3;
          (endTime, tr5) = Date_now env tr4;
          duration = endTime - startTime
      in case transcriptionResult of
           Inl error \<Rightarrow>
             (transcriptionResult,
              logEvent_execute env
                (transcription_failed selectedService (title error) (description error))
                (console_error (TranscriptionFailed selectedService duration error) tr5))
         | Inr data \<Rightarrow>
             (transcriptionResult,
              logEvent_execute env
                (transcription_completed selectedService duration)
                (console_log (TranscriptionCompleted selectedService duration (length data)) tr5)))"

section \<open>transcribeRecording\<close>

text \<open>
  The \<open>resultMutationFn\<close> of the mutation, which is what \<open>execute\<close> runs. It takes the
  effects so far and returns the result with the effects extended.
\<close>

definition transcribeRecording ::
  "Env \<Rightarrow> Recording \<Rightarrow> Effect list \<Rightarrow> string Result \<times> Effect list" where
  "transcribeRecording env recording tr =
     (case blob recording of
        None \<Rightarrow>
          (WhisperingErr (warning_sign @ '' Recording blob not found'')
             (''Your recording doesn'' @ [CHR 0x27] @ ''t have a blob to transcribe.''), tr)
      | Some b \<Rightarrow>
          (let (setRecordingTranscribingError, tr1) =
                 updateRecording_execute env
                   (recording\<lparr>transcriptionStatus := TRANSCRIBING\<rparr>) tr;
               tr2 = (case setRecordingTranscribingError of
                        Some e \<Rightarrow>
                          notify_warning_execute
                            (Warning
                               (warning_sign @ '' Unable to set recording transcription status to transcribing'')
                               ''Continuing with the transcription process...'' e) tr1
                      | None \<Rightarrow> tr1);
               (result, tr3) = transcribeBlob env b tr2
           in case result of
                Inl transcribeError \<Rightarrow>
                  (let (setRecordingTranscribingError, tr4) =
                         updateRecording_execute env
                           (recording\<lparr>transcriptionStatus := FAILED\<rparr>) tr3;
                       tr5 = (case setRecordingTranscribingError of
                                Some e \<Rightarrow>
                                  notify_warning_execute
                                    (Warning
                                       (warning_sign @ '' Unable to update recording after transcription'')
                                       (''Transcription failed but unable to update recording'' @ [CHR 0x27] @
                                        ''s transcription status in database'') e) tr4
                              | None \<Rightarrow> tr4)
                   in (Err transcribeError, tr5))
              | Inr transcribedText' \<Rightarrow>
                  (let (setRecordingTranscribedTextError, tr4) =
                         updateRecording_execute env
                           (recording\<lparr>transcribedText := Some transcribedText',
                                      transcriptionStatus := DONE\<rparr>) tr3;
                       tr5 = (case setRecordingTranscribedTextError of
                                Some e \<Rightarrow>
                                  notify_warning_execute
                                    (Warning
                                       (warning_sign @ '' Unable to update recording after transcription'')
                                       (''Transcription completed but unable to update recording'' @ [CHR 0x27] @
                                        ''s transcribed text and status in database'') e) tr4
                              | None \<Rightarrow> tr4)
                   in (Ok transcribedText', tr5))))"

section \<open>transcribeRecordings\<close>

text \<open>The body of the function mapped over the recordings.\<close>

definition transcribeItem ::
  "Env \<Rightarrow> Recording \<Rightarrow> Effect list \<Rightarrow> string Result \<times> Effect list" where
  "transcribeItem env recording tr =
     (case blob recording of
        None \<Rightarrow>
          (WhisperingErr (warning_sign @ '' Recording blob not found'')
             (''Your recording doesn'' @ [CHR 0x27] @ ''t have a blob to transcribe.''), tr)
      | Some b \<Rightarrow> transcribeBlob env b tr)"

text \<open>
  \<open>Promise.all(recordings.map(...))\<close>: the results come back in the order of the input,
  whatever order the calls finish in. The items are run here one after the other; in the
  source their effects may interleave, which changes no result, since an adapter's answer
  depends on its arguments only.
\<close>

fun transcribeItems ::
  "Env \<Rightarrow> Recording list \<Rightarrow> Effect list \<Rightarrow> string Result list \<times> Effect list" where
  "transcribeItems env [] tr = ([], tr)"
| "transcribeItems env (recording # rest) tr =
     (let (result, tr1) = transcribeItem env recording tr;
          (results, tr2) = transcribeItems env rest tr1
      in (result # results, tr2))"

record PartitionedResults =
  oks :: "string list"
  errs :: "WhisperingError list"

text \<open>
  Modelled from the spec: \<open>partitionResults\<close> is imported from the package
  \<open>wellcrafted/result\<close>, whose source is not at hand. By the spec (section 4.3) the results,
  collected in input order, are "partitioned into a successes sequence and a failures
  sequence". An \<open>Ok\<close> is given by its data and an \<open>Err\<close> by its error.
\<close>

definition partitionResults :: "string Result list \<Rightarrow> PartitionedResults" where
  "partitionResults results =
     \<lparr>oks = map projr (filter (\<lambda>r. \<not> isl r) results),
      errs = map projl (filter isl results)\<rparr>"

definition transcribeRecordings ::
  "Env \<Rightarrow> Recording list \<Rightarrow> Effect list \<Rightarrow> (WhisperingError + PartitionedResults) \<times> Effect list" where
  "transcribeRecordings env recordings tr =
     (let (results, tr1) = transcribeItems env recordings tr;
          partitionedResults = partitionResults results
      in (Inr partitionedResults, tr1))"

section \<open>Observing a run\<close>

text \<open>What a run did to each collaborator, read off the effects in order.\<close>

fun storeWrite :: "Effect \<Rightarrow> Recording list" where
  "storeWrite (UpdateRecording r _) = [r]"
| "storeWrite _ = []"

definition storeWrites :: "Effect list \<Rightarrow> Recording list" where
  "storeWrites tr = concat (map storeWrite tr)"

fun adapterReturn :: "Effect \<Rightarrow> string Result list" where
  "adapterReturn (Transcribe _ _ _ res) = [res]"
| "adapterReturn _ = []"

definition adapterReturns :: "Effect list \<Rightarrow> string Result list" where
  "adapterReturns tr = concat (map adapterReturn tr)"

fun notification :: "Effect \<Rightarrow> Notification list" where
  "notification (NotifyWarning w) = [w]"
| "notification _ = []"

definition notifications :: "Effect list \<Rightarrow> Notification list" where
  "notifications tr = concat (map notification tr)"

fun loggedEvent :: "Effect \<Rightarrow> AnalyticsEvent list" where
  "loggedEvent (LogEvent ev _) = [ev]"
| "loggedEvent _ = []"

definition loggedEvents :: "Effect list \<Rightarrow> AnalyticsEvent list" where
  "loggedEvents tr = concat (map loggedEvent tr)"

text \<open>Clock readings, analytics events and adapter calls, the rest left out.\<close>

fun lifecycleEffect :: "Effect \<Rightarrow> bool" where
  "lifecycleEffect (DateNow _) = True"
| "lifecycleEffect (LogEvent _ _) = True"
| "lifecycleEffect (Transcribe _ _ _ _) = True"
| "lifecycleEffect _ = False"

definition lifecycle :: "Effect list \<Rightarrow> Effect list" where
  "lifecycle tr = filter lifecycleEffect tr"

text \<open>The values of the selected-service setting that the switch has a case for.\<close>

definition providers :: "string list" where
  "providers = [''OpenAI'', ''Groq'', ''speaches'', ''ElevenLabs'', ''Deepgram'', ''whispercpp'']"

text \<open>
  For the proofs: which adapter the switch calls and with which options, as a function of
  the settings alone. Lemma \<open>switch_eq\<close> below shows that the switch is this lookup followed
  by the call.
\<close>

definition providerRequest :: "Settings \<Rightarrow> string \<Rightarrow> (TranscriptionService \<times> Options) option" where
  "providerRequest s sel =
     (if sel = ''OpenAI'' then
        (if apiEndpoints_openai s \<noteq> [] then
           Some (NativeOpenai, sharedOptions s @
              [(''apiKey'', Str (apiKeys_openai s)),
               (''modelName'', Str (transcription_openai_model s)),
               (''baseURL'', Str (apiEndpoints_openai s))])
         else
           Some (Openai, sharedOptions s @
              [(''apiKey'', Str (apiKeys_openai s)),
               (''modelName'', Str (transcription_openai_model s))]))
      else if sel = ''Groq'' then
        Some (Groq, sharedOptions s @
           [(''apiKey'', Str (apiKeys_groq s)),
            (''modelName'', Str (transcription_groq_model s))] @
           (if apiEndpoints_groq s \<noteq> [] then [(''baseURL'', Str (apiEndpoints_groq s))] else []))
      else if sel = ''speaches'' then
        Some (Speaches, sharedOptions s @
           [(''modelId'', Str (transcription_speaches_modelId s)),
            (''baseUrl'', Str (transcription_speaches_baseUrl s))])
      else if sel = ''ElevenLabs'' then
        Some (Elevenlabs, sharedOptions s @
           [(''apiKey'', Str (apiKeys_elevenlabs s)),
            (''modelName'', Str (transcription_elevenlabs_model s))])
      else if sel = ''Deepgram'' then
        Some (Deepgram, sharedOptions s @
           [(''apiKey'', Str (apiKeys_deepgram s)),
            (''modelName'', Str (transcription_deepgram_model s))])
      else if sel = ''whispercpp'' then
        Some (Whispercpp, sharedOptions s @
           [(''modelPath'', Str (transcription_whispercpp_modelPath s)),
            (''useGpu'', Flag (transcription_whispercpp_useGpu s))])
      else None)"

definition providerResult :: "Env \<Rightarrow> Blob \<Rightarrow> string Result" where
  "providerResult env b =
     (case providerRequest (settings env) (transcription_selectedTranscriptionService (settings env)) of
        None \<Rightarrow> Err NoProviderSelected
      | Some (svc, opts) \<Rightarrow> transcribe env svc b opts)"

text \<open>The warning a status-store answer gives rise to: one if the update failed, none otherwise.\<close>

definition statusWarning :: "string \<Rightarrow> string \<Rightarrow> StorageError option \<Rightarrow> Notification list" where
  "statusWarning t d res = (case res of None \<Rightarrow> [] | Some e \<Rightarrow> [Warning t d e])"

text \<open>The snapshot written after the adapter has answered.\<close>

definition finalWrite :: "Recording \<Rightarrow> string Result \<Rightarrow> Recording" where
  "finalWrite r res =
     (case res of
        Inl e \<Rightarrow> r\<lparr>transcriptionStatus := FAILED\<rparr>
      | Inr text \<Rightarrow> r\<lparr>transcribedText := Some text, transcriptionStatus := DONE\<rparr>)"

text \<open>The terminal analytics event for a result, given the elapsed time.\<close>

definition terminalEvent :: "string \<Rightarrow> int \<Rightarrow> string Result \<Rightarrow> AnalyticsEvent" where
  "terminalEvent sel d res =
     (case res of
        Inl e \<Rightarrow> transcription_failed sel (title e) (description e)
      | Inr text \<Rightarrow> transcription_completed sel d)"

subsection \<open>Concrete runs\<close>

definition settings_with :: "string \<Rightarrow> Settings" where
  "settings_with sel =
     \<lparr>transcription_selectedTranscriptionService = sel,
      transcription_outputLanguage = ''auto'',
      transcription_prompt = [],
      transcription_temperature = ''0'',
      apiEndpoints_openai = [],
      apiEndpoints_groq = [],
      apiKeys_openai = [],
      apiKeys_groq = ''gsk'',
      apiKeys_elevenlabs = [],
      apiKeys_deepgram = [],
      transcription_openai_model = ''whisper-1'',
      transcription_groq_model = ''whisper-large-v3'',
      transcription_elevenlabs_model = ''scribe_v1'',
      transcription_deepgram_model = ''nova-2'',
      transcription_speaches_modelId = [],
      transcription_speaches_baseUrl = [],
      transcription_whispercpp_modelPath = [],
      transcription_whispercpp_useGpu = False\<rparr>"

text \<open>
  Groq is selected and answers every audio with the same text; the status store refuses
  every update and the analytics sink every event; the clock counts the effects so far.
\<close>

definition env_success :: Env where
  "env_success =
     \<lparr>settings = settings_with ''Groq'',
      updateRecording = (\<lambda>r. Some (StorageError ''store offline'')),
      transcribe = (\<lambda>svc b opts. Ok ''hello world''),
      logEvent = (\<lambda>ev. Some (AnalyticsError ''sink offline'')),
      dateNow = (\<lambda>tr. int (length tr))\<rparr>"

text \<open>The same, with an adapter that refuses every audio.\<close>

definition unauthorized :: WhisperingError where
  "unauthorized = \<lparr>title = ''Unauthorized'', description = ''The API key was rejected.''\<rparr>"

definition env_failure :: Env where
  "env_failure = env_success\<lparr>transcribe := (\<lambda>svc b opts. Err unauthorized)\<rparr>"


definition wav :: Blob where
  "wav = Blob ''RIFF''"

definition recording_r1 :: Recording where
  "recording_r1 =
     \<lparr>recording_id = ''r1'', blob = Some wav, transcribedText = None,
      transcriptionStatus = UNTRANSCRIBED\<rparr>"

definition recording_r2 :: Recording where
  "recording_r2 = recording_r1\<lparr>recording_id := ''r2''\<rparr>"

text \<open>A recording that was transcribed before.\<close>

definition recording_done :: Recording where
  "recording_done =
     \<lparr>recording_id = ''r3'', blob = Some wav, transcribedText = Some ''old text'',
      transcriptionStatus = DONE\<rparr>"

definition recording_no_blob :: Recording where
  "recording_no_blob =
     \<lparr>recording_id = ''r4'', blob = None, transcribedText = None,
      transcriptionStatus = UNTRANSCRIBED\<rparr>"

section \<open>The effects of the parts\<close>

lemmas call_defs = updateRecording_execute_def notify_warning_execute_def logEvent_execute_def
  Date_now_def console_log_def console_error_def transcribe_call_def

lemma storeWrites_append [simp]: "storeWrites (xs @ ys) = storeWrites xs @ storeWrites ys"
  by (simp add: storeWrites_def)

lemma storeWrites_Cons [simp]: "storeWrites (x # xs) = storeWrite x @ storeWrites xs"
  by (simp add: storeWrites_def)

lemma storeWrites_Nil [simp]: "storeWrites [] = []"
  by (simp add: storeWrites_def)

lemma adapterReturns_append [simp]: "adapterReturns (xs @ ys) = adapterReturns xs @ adapterReturns ys"
  by (simp add: adapterReturns_def)

lemma adapterReturns_Cons [simp]: "adapterReturns (x # xs) = adapterReturn x @ adapterReturns xs"
  by (simp add: adapterReturns_def)

lemma adapterReturns_Nil [simp]: "adapterReturns [] = []"
  by (simp add: adapterReturns_def)

lemma notifications_append [simp]: "notifications (xs @ ys) = notifications xs @ notifications ys"
  by (simp add: notifications_def)

lemma notifications_Cons [simp]: "notifications (x # xs) = notification x @ notifications xs"
  by (simp add: notifications_def)

lemma notifications_Nil [simp]: "notifications [] = []"
  by (simp add: notifications_def)

lemma loggedEvents_append [simp]: "loggedEvents (xs @ ys) = loggedEvents xs @ loggedEvents ys"
  by (simp add: loggedEvents_def)

lemma loggedEvents_Cons [simp]: "loggedEvents (x # xs) = loggedEvent x @ loggedEvents xs"
  by (simp add: loggedEvents_def)

lemma loggedEvents_Nil [simp]: "loggedEvents [] = []"
  by (simp add: loggedEvents_def)

subsection \<open>The switch\<close>

lemma switch_eq:
  "selectedServiceSwitch env sel b tr =
     (case providerRequest (settings env) sel of
        None \<Rightarrow> (Err NoProviderSelected, tr)
      | Some (svc, opts) \<Rightarrow> transcribe_call env svc b opts tr)"
  unfolding selectedServiceSwitch_def providerRequest_def Let_def NoProviderSelected_def WhisperingErr_def
  by (simp only: if_distrib [of "\<lambda>x. case_option _ _ x"] option.case prod.case if_cancel cong: if_cong)

lemma providerRequest_None: "providerRequest s sel = None \<longleftrightarrow> sel \<notin> set providers"
  by (simp add: providerRequest_def providers_def)


lemma providerResult_logEvent: "providerResult (env\<lparr>logEvent := f\<rparr>) b = providerResult env b"
  by (simp add: providerResult_def split: option.splits)

subsection \<open>transcribeBlob\<close>

lemma blob_fst: "fst (transcribeBlob env b tr) = providerResult env b"
  unfolding transcribeBlob_def providerResult_def switch_eq Let_def call_defs
  by (simp split: option.splits sum.splits prod.splits)

lemma blob_storeWrites: "storeWrites (snd (transcribeBlob env b tr)) = storeWrites tr"
  unfolding transcribeBlob_def switch_eq Let_def call_defs
  by (simp split: option.splits sum.splits prod.splits)


lemma blob_adapterReturns:
  "adapterReturns (snd (transcribeBlob env b tr)) =
     adapterReturns tr @
     (if transcription_selectedTranscriptionService (settings env) \<in> set providers
      then [providerResult env b] else [])"
proof (cases "providerRequest (settings env) (transcription_selectedTranscriptionService (settings env))")
  case None
  moreover from None have "transcription_selectedTranscriptionService (settings env) \<notin> set providers"
    by (simp add: providerRequest_None)
  ultimately show ?thesis
    unfolding transcribeBlob_def providerResult_def switch_eq Let_def call_defs
    by (simp split: sum.splits prod.splits)
next
  case (Some p)
  moreover from Some have "transcription_selectedTranscriptionService (settings env) \<in> set providers"
    using providerRequest_None [of "settings env" "transcription_selectedTranscriptionService (settings env)"]
    by simp
  ultimately show ?thesis
    unfolding transcribeBlob_def providerResult_def switch_eq Let_def call_defs
    by (cases p) (simp split: sum.splits prod.splits)
qed

lemma blob_lifecycle:
  assumes "providerRequest (settings env) (transcription_selectedTranscriptionService (settings env)) = Some (svc, opts)"
  shows "\<exists>t0 t1 o1 o2.
    lifecycle (snd (transcribeBlob env b tr)) =
      lifecycle tr @
      [DateNow t0,
       LogEvent (transcription_requested (transcription_selectedTranscriptionService (settings env))) o1,
       Transcribe svc b opts (providerResult env b),
       DateNow t1,
       LogEvent (terminalEvent (transcription_selectedTranscriptionService (settings env)) (t1 - t0)
                   (providerResult env b)) o2]"
  using assms
  unfolding transcribeBlob_def providerResult_def switch_eq Let_def call_defs lifecycle_def terminalEvent_def
  by (simp split: sum.splits)

subsection \<open>transcribeRecording\<close>

lemma rec_no_blob:
  "blob r = None \<Longrightarrow> transcribeRecording env r tr = (Err MissingBlob, tr)"
  by (simp add: transcribeRecording_def WhisperingErr_def MissingBlob_def)

lemma rec_fst:
  "blob r = Some b \<Longrightarrow> fst (transcribeRecording env r tr) = providerResult env b"
  unfolding transcribeRecording_def Let_def updateRecording_execute_def notify_warning_execute_def
  by (simp add: split_beta blob_fst split: sum.splits)

lemma rec_storeWrites:
  "blob r = Some b \<Longrightarrow>
   storeWrites (snd (transcribeRecording env r tr)) =
     storeWrites tr @ [r\<lparr>transcriptionStatus := TRANSCRIBING\<rparr>, finalWrite r (providerResult env b)]"
  unfolding transcribeRecording_def Let_def updateRecording_execute_def notify_warning_execute_def
    finalWrite_def
  by (simp add: split_beta blob_fst blob_storeWrites split: sum.splits option.splits)

lemma rec_adapterReturns:
  "blob r = Some b \<Longrightarrow>
   adapterReturns (snd (transcribeRecording env r tr)) =
     adapterReturns tr @
     (if transcription_selectedTranscriptionService (settings env) \<in> set providers
      then [providerResult env b] else [])"
  unfolding transcribeRecording_def Let_def updateRecording_execute_def notify_warning_execute_def
  by (simp add: split_beta blob_fst blob_adapterReturns split: sum.splits option.splits)


lemma rec_lifecycle:
  assumes "blob r = Some b"
    and "providerRequest (settings env) (transcription_selectedTranscriptionService (settings env)) = Some (svc, opts)"
  shows "\<exists>t0 t1 o1 o2.
    lifecycle (snd (transcribeRecording env r tr)) =
      lifecycle tr @
      [DateNow t0,
       LogEvent (transcription_requested (transcription_selectedTranscriptionService (settings env))) o1,
       Transcribe svc b opts (providerResult env b),
       DateNow t1,
       LogEvent (terminalEvent (transcription_selectedTranscriptionService (settings env)) (t1 - t0)
                   (providerResult env b)) o2]"
proof -
  define tr2 where "tr2 = snd (updateRecording_execute env (r\<lparr>transcriptionStatus := TRANSCRIBING\<rparr>) tr) @
     map NotifyWarning (statusWarning (warning_sign @ '' Unable to set recording transcription status to transcribing'')
       ''Continuing with the transcription process...''
       (updateRecording env (r\<lparr>transcriptionStatus := TRANSCRIBING\<rparr>)))"
  have l2: "lifecycle tr2 = lifecycle tr"
    by (simp add: tr2_def lifecycle_def updateRecording_execute_def statusWarning_def split: option.splits)
  have "lifecycle (snd (transcribeRecording env r tr)) = lifecycle (snd (transcribeBlob env b tr2))"
    using assms(1)
    unfolding transcribeRecording_def Let_def updateRecording_execute_def notify_warning_execute_def
      tr2_def statusWarning_def
    by (simp add: split_beta lifecycle_def split: sum.splits option.splits)
  with blob_lifecycle [OF assms(2), of b tr2] l2 show ?thesis by simp
qed

subsection \<open>transcribeRecordings\<close>

lemma item_fst: "fst (transcribeItem env r tr) = fst (transcribeItem env r [])"
  by (simp add: transcribeItem_def blob_fst split: option.splits)

lemma item_storeWrites: "storeWrites (snd (transcribeItem env r tr)) = storeWrites tr"
  by (simp add: transcribeItem_def blob_storeWrites split: option.splits)

lemma items_fst: "fst (transcribeItems env rs tr) = map (\<lambda>r. fst (transcribeItem env r [])) rs"
proof (induction rs arbitrary: tr)
  case Nil
  show ?case by simp
next
  case (Cons r rs)
  have "fst (transcribeItems env (r # rs) tr) =
        fst (transcribeItem env r tr) # fst (transcribeItems env rs (snd (transcribeItem env r tr)))"
    by (simp add: split_beta Let_def)
  also have "\<dots> = fst (transcribeItem env r []) # map (\<lambda>r. fst (transcribeItem env r [])) rs"
    using item_fst [of env r tr] Cons.IH by simp
  finally show ?case by simp
qed

lemma items_storeWrites: "storeWrites (snd (transcribeItems env rs tr)) = storeWrites tr"
proof (induction rs arbitrary: tr)
  case Nil
  show ?case by simp
next
  case (Cons r rs)
  have "snd (transcribeItems env (r # rs) tr) = snd (transcribeItems env rs (snd (transcribeItem env r tr)))"
    by (simp add: split_beta Let_def)
  then show ?case using Cons.IH item_storeWrites by simp
qed

lemma partition_lengths: "length (oks (partitionResults xs)) + length (errs (partitionResults xs)) = length xs"
  by (simp add: partitionResults_def sum_length_filter_compl add.commute)

lemma partition_oks: "map Inr (oks (partitionResults xs)) = filter (\<lambda>x. \<not> isl x) xs"
  by (induction xs) (auto simp: partitionResults_def)

lemma partition_errs: "map Inl (errs (partitionResults xs)) = filter isl xs"
  by (induction xs) (auto simp: partitionResults_def)

section \<open>Properties of the orchestrator\<close>

lemmas run_defs = transcribeRecording_def transcribeBlob_def selectedServiceSwitch_def
  call_defs sharedOptions_def WhisperingErr_def Let_def blob_size_def








text \<open>
  C4, as the code has it. Every snapshot written is the recording as it was passed in, with
  the status replaced, and with the text replaced only in the \<open>DONE\<close> write. So the text
  written with \<open>TRANSCRIBING\<close> and with \<open>FAILED\<close> is the text the recording came with, set
  or not, and the text written with \<open>DONE\<close> is the adapter's.
\<close>

theorem transcribeRecording_written_text:
  assumes "blob r = Some b"
  shows "storeWrites (snd (transcribeRecording env r tr)) =
           storeWrites tr @
           [r\<lparr>transcriptionStatus := TRANSCRIBING\<rparr>,
            (case fst (transcribeRecording env r tr) of
               Inl e \<Rightarrow> r\<lparr>transcriptionStatus := FAILED\<rparr>
             | Inr text \<Rightarrow> r\<lparr>transcribedText := Some text, transcriptionStatus := DONE\<rparr>)] \<and>
         map transcribedText (storeWrites (snd (transcribeRecording env r tr))) =
           map transcribedText (storeWrites tr) @
           [transcribedText r,
            (case fst (transcribeRecording env r tr) of
               Inl e \<Rightarrow> transcribedText r
             | Inr text \<Rightarrow> Some text)]"
  using assms
  by (simp add: rec_fst rec_storeWrites finalWrite_def split: sum.splits)

theorem transcribeRecording_written_text_witness:
  "blob recording_done = Some wav \<and>
   map transcribedText (storeWrites (snd (transcribeRecording env_success recording_done []))) =
     [Some ''old text'', Some ''hello world'']"
proof -
  have h1: "blob recording_done = Some wav"
    by (simp add: recording_done_def)
  have h2: "fst (transcribeRecording env_success recording_done []) = Ok ''hello world''"
    by (simp add: run_defs env_success_def recording_done_def settings_with_def)
  have h3: "transcribedText recording_done = Some ''old text''"
    by (simp add: recording_done_def)
  from transcribeRecording_written_text [OF h1, of env_success "[]"] h1 show ?thesis
    by (simp add: h2 h3)
qed

text \<open>
  C4, as stated, fails: transcribing again a recording that has a text writes, with the
  status \<open>TRANSCRIBING\<close>, a snapshot that still has the old text.
\<close>

theorem transcribeRecording_written_text_counterexample:
  "transcriptionStatus (storeWrites (snd (transcribeRecording env_success recording_done [])) ! 0) = TRANSCRIBING \<and>
   transcribedText (storeWrites (snd (transcribeRecording env_success recording_done [])) ! 0) = Some ''old text''"
  by (simp add: run_defs env_success_def recording_done_def settings_with_def)

lemmas batch_defs = transcribeRecordings_def transcribeItem_def partitionResults_def

text \<open>
  C5, as the code has it. The call returns the texts of the successful items and the errors
  of the failed ones, each sequence in the order of the input: wrapped again as results,
  they are the successes, and the failures, among the results that the recordings give one
  by one. Neither sequence says which recording an entry came from.
\<close>

theorem transcribeRecordings_order:
  "\<exists>p. fst (transcribeRecordings env rs tr) = Ok p \<and>
       map Ok (oks p) = filter (\<lambda>x. \<not> isl x) (map (\<lambda>r. fst (transcribeItem env r [])) rs) \<and>
       map Err (errs p) = filter isl (map (\<lambda>r. fst (transcribeItem env r [])) rs)"
proof -
  have "fst (transcribeRecordings env rs tr) = Ok (partitionResults (fst (transcribeItems env rs tr)))"
    by (simp add: transcribeRecordings_def split_beta Let_def)
  then show ?thesis
    by (simp add: items_fst partition_oks partition_errs)
qed

text \<open>
  C5, as stated, fails: two different recordings with the same audio give the same outcome,
  a bare text, so an entry is not paired with the recording it came from.
\<close>

theorem transcribeRecordings_order_counterexample:
  "recording_r1 \<noteq> recording_r2 \<and>
   fst (transcribeRecordings env_success [recording_r1] []) = Ok \<lparr>oks = [''hello world''], errs = []\<rparr> \<and>
   fst (transcribeRecordings env_success [recording_r2] []) = Ok \<lparr>oks = [''hello world''], errs = []\<rparr>"
proof -
  have "recording_id recording_r1 \<noteq> recording_id recording_r2"
    by (simp add: recording_r1_def recording_r2_def)
  then have "recording_r1 \<noteq> recording_r2"
    by auto
  moreover have "fst (transcribeRecordings env_success [recording_r1] []) = Ok \<lparr>oks = [''hello world''], errs = []\<rparr>"
    by (simp add: batch_defs run_defs env_success_def recording_r1_def settings_with_def)
  moreover have "fst (transcribeRecordings env_success [recording_r2] []) = Ok \<lparr>oks = [''hello world''], errs = []\<rparr>"
    by (simp add: batch_defs run_defs env_success_def recording_r1_def recording_r2_def settings_with_def)
  ultimately show ?thesis by simp
qed

text \<open>
  C6. A recording without audio: \<open>transcribeRecording\<close> returns the "recording blob not
  found" error and the status store is not written.
\<close>

theorem transcribeRecording_missing_blob:
  assumes "blob r = None"
  shows "fst (transcribeRecording env r tr) = Err MissingBlob \<and>
         storeWrites (snd (transcribeRecording env r tr)) = storeWrites tr"
  using assms by (simp add: rec_no_blob)

theorem transcribeRecording_missing_blob_witness:
  "blob recording_no_blob = None \<and>
   fst (transcribeRecording env_success recording_no_blob []) = Err MissingBlob \<and>
   storeWrites (snd (transcribeRecording env_success recording_no_blob [])) = []"
proof -
  have h: "blob recording_no_blob = None"
    by (simp add: recording_no_blob_def)
  from transcribeRecording_missing_blob [OF h, of env_success "[]"] h show ?thesis
    by simp
qed

text \<open>
  C7. \<open>transcribeRecordings\<close> never writes to the status store, whatever the recordings are.
\<close>

theorem transcribeRecordings_no_store_writes:
  "storeWrites (snd (transcribeRecordings env rs tr)) = storeWrites tr"
proof -
  have "snd (transcribeRecordings env rs tr) = snd (transcribeItems env rs tr)"
    by (simp add: transcribeRecordings_def split_beta Let_def)
  then show ?thesis
    by (simp add: items_storeWrites)
qed

text \<open>
  C8. \<open>transcribeRecordings\<close> always returns \<open>Ok\<close>, and what it returns carries the
  partition of the items' results: \<open>oks\<close> holds the texts of the items that succeeded and
  \<open>errs\<close> the errors of the items that failed, each in input order, one entry per
  recording in all. When every item fails, the call still returns \<open>Ok\<close>, with \<open>oks\<close>
  empty and \<open>errs\<close> holding every item's error: a failed item is an entry of \<open>errs\<close> and
  never an error of the call.
\<close>

theorem transcribeRecordings_returns_ok:
  "\<exists>p. fst (transcribeRecordings env rs tr) = Ok p \<and>
       oks p = map projr (filter (\<lambda>x. \<not> isl x) (map (\<lambda>r. fst (transcribeItem env r [])) rs)) \<and>
       errs p = map projl (filter isl (map (\<lambda>r. fst (transcribeItem env r [])) rs)) \<and>
       length (oks p) + length (errs p) = length rs \<and>
       (list_all isl (map (\<lambda>r. fst (transcribeItem env r [])) rs) \<longrightarrow>
          oks p = [] \<and> map Err (errs p) = map (\<lambda>r. fst (transcribeItem env r [])) rs)"
proof -
  define results where "results = map (\<lambda>r. fst (transcribeItem env r [])) rs"
  define p where "p = partitionResults results"
  have ret: "fst (transcribeRecordings env rs tr) = Ok p"
    by (simp add: transcribeRecordings_def split_beta Let_def items_fst p_def results_def)
  have o: "oks p = map projr (filter (\<lambda>x. \<not> isl x) results)"
    by (simp add: p_def partitionResults_def)
  have e: "errs p = map projl (filter isl results)"
    by (simp add: p_def partitionResults_def)
  have len: "length (oks p) + length (errs p) = length rs"
    using partition_lengths [of results] by (simp add: p_def results_def)
  have allfail: "oks p = [] \<and> map Err (errs p) = results" if "list_all isl results"
  proof -
    from that have f1: "filter isl results = results"
      by (simp add: list_all_iff)
    from that have f2: "filter (\<lambda>x. \<not> isl x) results = []"
      by (simp add: list_all_iff)
    from f2 o have "oks p = []" by simp
    moreover from partition_errs [of results] f1 have "map Err (errs p) = results"
      by (simp add: p_def)
    ultimately show ?thesis by simp
  qed
  from ret o e len allfail show ?thesis
    unfolding results_def by blast
qed

theorem transcribeRecordings_returns_ok_witness:
  "list_all isl (map (\<lambda>r. fst (transcribeItem env_failure r [])) [recording_no_blob, recording_r1]) \<and>
   fst (transcribeRecordings env_failure [recording_no_blob, recording_r1] []) =
     Ok \<lparr>oks = [], errs = [MissingBlob, unauthorized]\<rparr>"
proof -
  have i1: "fst (transcribeItem env_failure recording_no_blob []) = Err MissingBlob"
    by (simp add: transcribeItem_def recording_no_blob_def WhisperingErr_def MissingBlob_def)
  have i2: "fst (transcribeItem env_failure recording_r1 []) = Err unauthorized"
    by (simp add: transcribeItem_def run_defs env_failure_def env_success_def recording_r1_def settings_with_def)
  have h: "list_all isl (map (\<lambda>r. fst (transcribeItem env_failure r [])) [recording_no_blob, recording_r1])"
    by (simp add: i1 i2)
  from transcribeRecordings_returns_ok [of env_failure "[recording_no_blob, recording_r1]" "[]"]
  obtain p where ret: "fst (transcribeRecordings env_failure [recording_no_blob, recording_r1] []) = Ok p"
    and imp: "list_all isl (map (\<lambda>r. fst (transcribeItem env_failure r [])) [recording_no_blob, recording_r1]) \<longrightarrow>
          oks p = [] \<and> map Err (errs p) = map (\<lambda>r. fst (transcribeItem env_failure r [])) [recording_no_blob, recording_r1]"
    by blast
  from imp h have "oks p = []" and "errs p = [MissingBlob, unauthorized]"
    by (auto simp: i1 i2)
  then have "p = \<lparr>oks = [], errs = [MissingBlob, unauthorized]\<rparr>"
    by simp
  with ret h show ?thesis by simp
qed

text \<open>
  C9. A recording has its audio and an adapter is called. Then, of clock readings,
  analytics events and adapter calls, the run makes exactly these, in this order: a reading
  \<open>t0\<close>, the "requested" event, the adapter call, a reading \<open>t1\<close>, and one terminal event,
  "completed" with the duration \<open>t1 - t0\<close> if the adapter answered \<open>Ok\<close> and "failed" with
  the error's title and description otherwise. And the result returned is the same whatever
  the analytics sink answers.
\<close>

theorem transcribeRecording_lifecycle:
  assumes "blob r = Some b"
    and "adapterReturns (snd (transcribeRecording env r tr)) \<noteq> adapterReturns tr"
  shows "(\<exists>svc opts t0 t1 o1 o2.
            lifecycle (snd (transcribeRecording env r tr)) =
              lifecycle tr @
              [DateNow t0,
               LogEvent (transcription_requested (transcription_selectedTranscriptionService (settings env))) o1,
               Transcribe svc b opts (fst (transcribeRecording env r tr)),
               DateNow t1,
               LogEvent (terminalEvent (transcription_selectedTranscriptionService (settings env)) (t1 - t0)
                           (fst (transcribeRecording env r tr))) o2]) \<and>
         fst (transcribeRecording (env\<lparr>logEvent := f\<rparr>) r tr) = fst (transcribeRecording env r tr)"
proof -
  from assms have "transcription_selectedTranscriptionService (settings env) \<in> set providers"
    by (simp add: rec_adapterReturns split: if_splits)
  then obtain svc opts where
    req: "providerRequest (settings env) (transcription_selectedTranscriptionService (settings env)) = Some (svc, opts)"
    using providerRequest_None [of "settings env" "transcription_selectedTranscriptionService (settings env)"]
    by auto
  have res: "fst (transcribeRecording env r tr) = providerResult env b"
    using assms(1) by (rule rec_fst)
  have "blob r = Some b" by (rule assms(1))
  then have "fst (transcribeRecording (env\<lparr>logEvent := f\<rparr>) r tr) = providerResult (env\<lparr>logEvent := f\<rparr>) b"
    by (rule rec_fst)
  then have indep: "fst (transcribeRecording (env\<lparr>logEvent := f\<rparr>) r tr) = fst (transcribeRecording env r tr)"
    by (simp add: res providerResult_logEvent)
  from rec_lifecycle [OF assms(1) req, of tr] res indep show ?thesis
    by metis
qed

theorem transcribeRecording_lifecycle_witness:
  "blob recording_r1 = Some wav \<and>
   adapterReturns (snd (transcribeRecording env_success recording_r1 [])) \<noteq> adapterReturns [] \<and>
   (\<exists>svc opts t0 t1 o1 o2.
      lifecycle (snd (transcribeRecording env_success recording_r1 [])) =
        lifecycle [] @
        [DateNow t0,
         LogEvent (transcription_requested (transcription_selectedTranscriptionService (settings env_success))) o1,
         Transcribe svc wav opts (fst (transcribeRecording env_success recording_r1 [])),
         DateNow t1,
         LogEvent (terminalEvent (transcription_selectedTranscriptionService (settings env_success)) (t1 - t0)
                     (fst (transcribeRecording env_success recording_r1 []))) o2]) \<and>
   fst (transcribeRecording (env_success\<lparr>logEvent := (\<lambda>ev. None)\<rparr>) recording_r1 []) =
     fst (transcribeRecording env_success recording_r1 [])"
proof -
  have h1: "blob recording_r1 = Some wav"
    by (simp add: recording_r1_def)
  have h2: "adapterReturns (snd (transcribeRecording env_success recording_r1 [])) \<noteq> adapterReturns []"
    by (simp add: run_defs env_success_def recording_r1_def settings_with_def)
  from transcribeRecording_lifecycle [OF h1 h2, of "\<lambda>ev. None"] h1 h2 show ?thesis
    by blast
qed

text \<open>
  C10. A recording without audio: \<open>transcribeRecording\<close> emits no analytics event and no
  notification; it returns before doing anything to the outside.
\<close>

theorem transcribeRecording_missing_blob_silent:
  assumes "blob r = None"
  shows "loggedEvents (snd (transcribeRecording env r tr)) = loggedEvents tr \<and>
         notifications (snd (transcribeRecording env r tr)) = notifications tr \<and>
         snd (transcribeRecording env r tr) = tr"
  using assms by (simp add: rec_no_blob)

theorem transcribeRecording_missing_blob_silent_witness:
  "blob recording_no_blob = None \<and>
   loggedEvents (snd (transcribeRecording env_success recording_no_blob [])) = [] \<and>
   notifications (snd (transcribeRecording env_success recording_no_blob [])) = [] \<and>
   snd (transcribeRecording env_success recording_no_blob []) = []"
proof -
  have h: "blob recording_no_blob = None"
    by (simp add: recording_no_blob_def)
  from transcribeRecording_missing_blob_silent [OF h, of env_success "[]"] h show ?thesis
    by simp
qed

end
